theory Spec2Isabelle
  imports Complex_Main "HOL-Library.Sublist"
begin

section \<open>Python strings\<close>

text \<open>
  A Python \<open>str\<close> is modelled as a \<open>string\<close>: one \<open>char\<close> per code point, for
  texts whose code points are below 256.  \<open>len\<close> is \<open>length\<close>.
\<close>

definition LF :: char where
  "LF = CHR 0x0A"

definition isspace :: "char \<Rightarrow> bool" where
  \<comment> \<open>the code points below 256 that \<open>str.strip()\<close> and \<open>str.split()\<close> treat as whitespace\<close>
  "isspace c = (let n = (of_char c :: nat) in
     (9 \<le> n \<and> n \<le> 13) \<or> (28 \<le> n \<and> n \<le> 32) \<or> n = 133 \<or> n = 160)"

definition strip :: "string \<Rightarrow> string" where
  \<comment> \<open>\<open>s.strip()\<close>\<close>
  "strip s = rev (dropWhile isspace (rev (dropWhile isspace s)))"

fun split_nn :: "string \<Rightarrow> string list" where
  \<comment> \<open>\<open>s.split('\n\n')\<close>: the separator is searched left to right, without overlap\<close>
  "split_nn [] = [[]]"
| "split_nn [c] = [[c]]"
| "split_nn (c # d # s) =
     (if c = LF \<and> d = LF then [] # split_nn s
      else (case split_nn (d # s) of
              t # ts \<Rightarrow> (c # t) # ts
            | [] \<Rightarrow> [[c]]))"

section \<open>Chunks\<close>

text \<open>
  The chunk dictionaries of \<open>fast_large_document_processor.py\<close>.  The keys
  \<open>relevance_score\<close> and \<open>embedding\<close> are absent until a later stage sets them.
\<close>

record 'v chunk =
  chunk_id :: int
  chunk_text :: string
  char_count :: nat
  relevance_score :: "int option"
  embedding :: "'v option"

section \<open>intelligent_chunk_split\<close>

definition new_chunk :: "int \<Rightarrow> string \<Rightarrow> 'v chunk" where
  \<comment> \<open>the dictionary appended at lines 114-118 and 126-130\<close>
  "new_chunk cid current_chunk =
     \<lparr>chunk_id = cid, chunk_text = strip current_chunk, char_count = length current_chunk,
      relevance_score = None, embedding = None\<rparr>"

text \<open>The loop state is \<open>(chunks, current_chunk, chunk_id)\<close>.\<close>

type_synonym 'v split_state = "'v chunk list \<times> string \<times> int"

definition add_section :: "int \<Rightarrow> 'v split_state \<Rightarrow> string \<Rightarrow> 'v split_state" where
  \<comment> \<open>one iteration of the inner loop, lines 108-122\<close>
  "add_section max_chunk_chars st section =
     (case st of (chunks, current_chunk, cid) \<Rightarrow>
        if strip section = [] then st
        else if int (length current_chunk) + int (length section) > max_chunk_chars
                \<and> current_chunk \<noteq> []
        then (chunks @ [new_chunk cid current_chunk], section, cid + 1)
        else (chunks,
              (if current_chunk \<noteq> [] then current_chunk @ [LF, LF] @ section else section),
              cid))"

definition add_page :: "int \<Rightarrow> 'v split_state \<Rightarrow> string \<Rightarrow> 'v split_state" where
  \<comment> \<open>one iteration of the outer loop, lines 104-122\<close>
  "add_page max_chunk_chars st page_text =
     foldl (add_section max_chunk_chars) st (split_nn page_text)"

definition intelligent_chunk_split :: "string list \<Rightarrow> int \<Rightarrow> 'v chunk list" where
  "intelligent_chunk_split texts max_chunk_chars =
     (case foldl (add_page max_chunk_chars) ([], [], 0) texts of
        (chunks, current_chunk, cid) \<Rightarrow>
          if strip current_chunk \<noteq> [] then chunks @ [new_chunk cid current_chunk]
          else chunks)"


section \<open>Python values used by the later stages\<close>

datatype py_error =
    ZeroDivisionError string
  | KeyError
  | ValueError string
  | Exception string
  | External string  \<comment> \<open>an exception raised inside a library call, with its \<open>str(e)\<close>\<close>

fun str_of_error :: "py_error \<Rightarrow> string" where
  \<comment> \<open>\<open>str(e)\<close>\<close>
  "str_of_error (ZeroDivisionError m) = m"
| "str_of_error KeyError = ''KeyError''"
| "str_of_error (ValueError m) = m"
| "str_of_error (Exception m) = m"
| "str_of_error (External m) = m"

definition lower_char :: "char \<Rightarrow> char" where
  \<comment> \<open>\<open>str.lower()\<close> on one code point below 256\<close>
  "lower_char c = (let n = (of_char c :: nat) in
     if (65 \<le> n \<and> n \<le> 90) \<or> (192 \<le> n \<and> n \<le> 222 \<and> n \<noteq> 215) then char_of (n + 32) else c)"

definition lower :: "string \<Rightarrow> string" where
  "lower s = map lower_char s"

fun str_in :: "string \<Rightarrow> string \<Rightarrow> bool" where
  \<comment> \<open>\<open>sub in s\<close>: \<open>sub\<close> occurs in \<open>s\<close> as a contiguous substring\<close>
  "str_in sub [] = (sub = [])"
| "str_in sub (c # s) = (prefix sub (c # s) \<or> str_in sub s)"

fun words_from :: "string \<Rightarrow> string \<Rightarrow> string list" where
  \<comment> \<open>the scan behind \<open>s.split()\<close>; the first argument is the word being read\<close>
  "words_from w [] = (if w = [] then [] else [w])"
| "words_from w (c # s) =
     (if isspace c then (if w = [] then words_from [] s else w # words_from [] s)
      else words_from (w @ [c]) s)"

definition split_ws :: "string \<Rightarrow> string list" where
  \<comment> \<open>\<open>s.split()\<close>: the maximal runs of non-whitespace\<close>
  "split_ws s = words_from [] s"

definition slice_to :: "int \<Rightarrow> 'a list \<Rightarrow> 'a list" where
  \<comment> \<open>\<open>xs[:k]\<close>; a negative \<open>k\<close> counts from the end\<close>
  "slice_to k xs = (if 0 \<le> k then take (nat k) xs else take (length xs - nat (- k)) xs)"

function py_range :: "nat \<Rightarrow> nat \<Rightarrow> nat \<Rightarrow> nat list" where
  \<comment> \<open>\<open>range(start, stop, step)\<close> for a positive step\<close>
  "py_range start stop step =
     (if 0 < step \<and> start < stop then start # py_range (start + step) stop step else [])"
  by pat_completeness auto
termination
  by (relation "measure (\<lambda>(start, stop, step). stop - start)") auto

declare py_range.simps [simp del]

definition true_div :: "int \<Rightarrow> int \<Rightarrow> py_error + rat" where
  \<comment> \<open>\<open>a / b\<close> on integers; the quotient is kept exact instead of rounded to a float\<close>
  "true_div a b =
     (if b = 0 then Inl (ZeroDivisionError ''division by zero'') else Inr (of_int a / of_int b))"

definition float_div :: "rat \<Rightarrow> rat \<Rightarrow> py_error + rat" where
  \<comment> \<open>\<open>a / b\<close> with a float operand, again kept exact\<close>
  "float_div a b =
     (if b = 0 then Inl (ZeroDivisionError ''float division by zero'') else Inr (a / b))"

section \<open>The heap of chunk dictionaries\<close>

text \<open>
  The later stages write into the chunk dictionaries they are given, and the lists they
  return hold the same dictionaries.  A chunk list is therefore a list of addresses into a
  heap of dictionaries.
\<close>

type_synonym addr = nat
type_synonym 'v heap = "addr \<Rightarrow> 'v chunk"

definition heap_of :: "'v chunk list \<Rightarrow> 'v heap" where
  \<comment> \<open>the dictionaries of a fresh list, at the addresses \<open>0..<length cs\<close>\<close>
  "heap_of cs a = (if a < length cs then cs ! a else new_chunk (- 1) [])"

section \<open>select_most_relevant_chunks\<close>

definition important_terms :: "string list" where
  "important_terms = [''term'', ''liability'', ''payment'', ''confidential'', ''termination'',
                      ''indemnif'', ''compliance'', ''risk'', ''breach'', ''obligation'']"

definition chunk_score :: "string list \<Rightarrow> 'v chunk \<Rightarrow> int" where
  \<comment> \<open>lines 261-282: the score accumulated for one chunk\<close>
  "chunk_score keyword_lower chunk =
     (let text_lower = lower (chunk_text chunk);
          score0 = (if chunk_id chunk = 0 then 100 else 0);
          score1 = foldl (\<lambda>score kw. if str_in kw text_lower then score + 50 else score)
                     score0 keyword_lower;
          score2 = foldl (\<lambda>score term. if str_in term text_lower then score + 10 else score)
                     score1 important_terms
      in if str_in ''term'' text_lower \<or> str_in ''condition'' text_lower then score2 + 20
         else score2)"

definition score_step :: "string list \<Rightarrow> 'v heap \<times> addr list \<Rightarrow> addr \<Rightarrow> 'v heap \<times> addr list" where
  \<comment> \<open>one iteration of the loop of lines 260-286 on the state \<open>(heap, selected)\<close>\<close>
  "score_step keyword_lower st a =
     (case st of (h, selected) \<Rightarrow>
        let score = chunk_score keyword_lower (h a) in
        if score > 0 then (h(a := (h a)\<lparr>relevance_score := Some score\<rparr>), selected @ [a])
        else (h, selected))"

definition score_key :: "'v chunk \<Rightarrow> int" where
  \<comment> \<open>the sort key \<open>x["relevance_score"]\<close>; every selected chunk has the key\<close>
  "score_key c = (case relevance_score c of Some s \<Rightarrow> s | None \<Rightarrow> 0)"

definition select_most_relevant_chunks ::
  "'v heap \<Rightarrow> addr list \<Rightarrow> string list \<Rightarrow> int \<Rightarrow> 'v heap \<times> addr list" where
  \<comment> \<open>\<open>list.sort(key, reverse=True)\<close> is stable: equal keys keep their order\<close>
  "select_most_relevant_chunks h chunks query_keywords top_k =
     (let keyword_lower = map lower query_keywords in
      case foldl (score_step keyword_lower) (h, []) chunks of
        (h', selected) \<Rightarrow>
          (h', slice_to top_k (sort_key (\<lambda>a. - score_key (h' a)) selected)))"

section \<open>The selection without a query\<close>

definition no_query_selection :: "'a list \<Rightarrow> 'a list" where
  \<comment> \<open>lines 441-442\<close>
  "no_query_selection chunks =
     (if chunks \<noteq> [] then [chunks ! 0] else [])
     @ map (\<lambda>i. chunks ! i) (py_range 1 (length chunks) (max 1 (length chunks div 10)))"


section \<open>FastEmbedder\<close>

text \<open>
  The embedder object: whether the model has been loaded, the cache from the MD5 digest of
  a text to its vector, and (for the statements about the model) the argument of every
  \<open>model.encode\<close> call made so far, oldest first.  The hash function and the model are
  parameters: \<open>md5 text\<close> is \<open>hashlib.md5(text.encode()).hexdigest()\<close>, and
  \<open>encode texts\<close> is the list \<open>model.encode\<close> returns, or \<open>Inl\<close> the message of
  the exception it raises.
\<close>

record 'v embedder =
  model_loaded :: bool
  embedding_cache :: "string \<rightharpoonup> 'v"
  encode_calls :: "string list list"

definition FastEmbedder :: "'v embedder" where
  \<comment> \<open>\<open>__init__\<close>\<close>
  "FastEmbedder = \<lparr>model_loaded = False, embedding_cache = Map.empty, encode_calls = []\<rparr>"

definition scan_cache ::
  "(string \<Rightarrow> string) \<Rightarrow> (string \<rightharpoonup> 'v) \<Rightarrow> string list
     \<Rightarrow> (nat \<times> string \<times> string) list \<times> (nat \<times> string) list" where
  \<comment> \<open>lines 172-180: \<open>(uncached_texts, indices_map)\<close>; the cache is only read\<close>
  "scan_cache md5 cache texts =
     foldl (\<lambda>(uncached_texts, indices_map) (i, text).
              let text_hash = md5 text in
              if cache text_hash \<noteq> None then (uncached_texts, indices_map @ [(i, text_hash)])
              else (uncached_texts @ [(i, text, text_hash)], indices_map))
       ([], []) (enumerate 0 texts)"

definition store_embeddings ::
  "(string \<rightharpoonup> 'v) \<Rightarrow> ((nat \<times> string \<times> string) \<times> 'v) list
     \<Rightarrow> (string \<rightharpoonup> 'v) \<times> (nat \<rightharpoonup> 'v)" where
  \<comment> \<open>lines 194-197: \<open>(self.embedding_cache, embeddings)\<close> after the loop over the zip\<close>
  "store_embeddings cache pairs =
     foldl (\<lambda>(cache, embeddings) ((idx, text, text_hash), emb).
              (cache(text_hash \<mapsto> emb), embeddings(idx \<mapsto> emb)))
       (cache, Map.empty) pairs"

fun collect :: "(py_error + 'a) list \<Rightarrow> py_error + 'a list" where
  \<comment> \<open>the values of a loop that stops at the first exception\<close>
  "collect [] = Inr []"
| "collect (Inl e # rs) = Inl e"
| "collect (Inr x # rs) = (case collect rs of Inl e \<Rightarrow> Inl e | Inr xs \<Rightarrow> Inr (x # xs))"

definition build_result ::
  "(string \<rightharpoonup> 'v) \<Rightarrow> (nat \<rightharpoonup> 'v) \<Rightarrow> (nat \<rightharpoonup> string) \<Rightarrow> nat \<Rightarrow> py_error + 'v list" where
  \<comment> \<open>lines 200-206\<close>
  "build_result cache embeddings indices_map n =
     collect (map (\<lambda>i. case embeddings i of
                           Some v \<Rightarrow> Inr v
                         | None \<Rightarrow> (case indices_map i of
                                      None \<Rightarrow> Inl KeyError
                                    | Some text_hash \<Rightarrow> (case cache text_hash of
                                                          None \<Rightarrow> Inl KeyError
                                                        | Some v \<Rightarrow> Inr v)))
                  [0..<n])"

definition embed_uncached ::
  "(string list \<Rightarrow> string + 'v list) \<Rightarrow> 'v embedder \<Rightarrow> nat
     \<Rightarrow> (nat \<times> string \<times> string) list \<Rightarrow> (nat \<times> string) list
     \<Rightarrow> 'v embedder \<times> (py_error + 'v list)" where
  \<comment> \<open>lines 185-208 when \<open>uncached_texts\<close> is not empty; \<open>n\<close> is \<open>len(texts)\<close>\<close>
  "embed_uncached encode self n uncached_texts indices_map =
     (let texts_to_embed = map (\<lambda>(i, text, text_hash). text) uncached_texts;
          self2 = self\<lparr>encode_calls := encode_calls self @ [texts_to_embed]\<rparr>
      in case encode texts_to_embed of
           Inl msg \<Rightarrow> (self2, Inl (External msg))
         | Inr batch_embeddings \<Rightarrow>
             (let stored = store_embeddings (embedding_cache self2)
                             (zip uncached_texts batch_embeddings)
              in (self2\<lparr>embedding_cache := fst stored\<rparr>,
                  build_result (fst stored) (snd stored) (map_of indices_map) n)))"

definition embed_batch ::
  "(string \<Rightarrow> string) \<Rightarrow> (string list \<Rightarrow> string + 'v list) \<Rightarrow> 'v embedder \<Rightarrow> string list
     \<Rightarrow> 'v embedder \<times> (py_error + 'v list)" where
  "embed_batch md5 encode self texts =
     (let self1 = self\<lparr>model_loaded := True\<rparr>;
          scanned = scan_cache md5 (embedding_cache self1) texts;
          uncached_texts = fst scanned;
          indices_map = snd scanned
      in if uncached_texts = [] then
           (self1, build_result (embedding_cache self1) Map.empty (map_of indices_map)
                     (length texts))
         else embed_uncached encode self1 (length texts) uncached_texts indices_map)"

definition embed_chunks_parallel ::
  "(string \<Rightarrow> string) \<Rightarrow> (string list \<Rightarrow> string + 'v list) \<Rightarrow> 'v embedder \<Rightarrow> 'v heap
     \<Rightarrow> addr list \<Rightarrow> 'v embedder \<times> 'v heap \<times> (py_error + addr list)" where
  \<comment> \<open>writes \<open>chunk["embedding"]\<close> into the given dictionaries and returns the given list\<close>
  "embed_chunks_parallel md5 encode self h chunks =
     (let texts = map (\<lambda>a. chunk_text (h a)) chunks in
      case embed_batch md5 encode self texts of
        (self', Inl e) \<Rightarrow> (self', h, Inl e)
      | (self', Inr embeddings) \<Rightarrow>
          (self',
           foldl (\<lambda>h (a, emb). h(a := (h a)\<lparr>embedding := Some emb\<rparr>)) h (zip chunks embeddings),
           Inr chunks))"

section \<open>async_upsert_to_pinecone\<close>

text \<open>
  A record sent to the index is \<open>(vector_id, embedding, metadata)\<close>, the metadata being
  \<open>(chunk_text, chunk_id, char_count)\<close>.  The index is a parameter: \<open>upsert_ok k\<close>
  tells whether the call \<open>index.upsert\<close> made after \<open>k\<close> earlier calls returns
  (\<open>True\<close>) or raises.  Every call is logged with the records it carries.
\<close>

type_synonym 'v vector = "string \<times> 'v \<times> (string \<times> int \<times> nat)"

record 'v upload_state =
  vectors_to_upsert :: "'v vector list"
  uploaded_count :: nat
  upsert_calls :: "'v vector list list"

datatype upload_status = Success | Partial

record upload_result =
  total_chunks :: nat
  uploaded_chunks :: nat
  upload_status :: upload_status

definition upsert_step ::
  "(string \<Rightarrow> string) \<Rightarrow> (nat \<Rightarrow> bool) \<Rightarrow> int \<Rightarrow> 'v heap \<Rightarrow> 'v upload_state \<Rightarrow> addr
     \<Rightarrow> 'v upload_state" where
  \<comment> \<open>one iteration of the loop of lines 326-350; every chunk of this model has the key
      \<open>char_count\<close>, so the default of \<open>chunk.get\<close> is not needed\<close>
  "upsert_step md5 upsert_ok batch_size h st a =
     (let chunk = h a in
      case embedding chunk of
        None \<Rightarrow> st
      | Some emb \<Rightarrow>
          let vector_id = ''chunk_'' @ md5 (chunk_text chunk);
              vs = vectors_to_upsert st
                   @ [(vector_id, emb, (chunk_text chunk, chunk_id chunk, char_count chunk))]
          in if int (length vs) \<ge> batch_size then
               (if upsert_ok (length (upsert_calls st)) then
                  st\<lparr>vectors_to_upsert := [],
                     uploaded_count := uploaded_count st + length vs,
                     upsert_calls := upsert_calls st @ [vs]\<rparr>
                else
                  st\<lparr>vectors_to_upsert := vs, upsert_calls := upsert_calls st @ [vs]\<rparr>)
             else st\<lparr>vectors_to_upsert := vs\<rparr>)"

definition upload_summary :: "nat \<Rightarrow> nat \<Rightarrow> upload_result" where
  \<comment> \<open>lines 357-361\<close>
  "upload_summary n_chunks n_uploaded =
     \<lparr>total_chunks = n_chunks, uploaded_chunks = n_uploaded,
      upload_status = (if n_uploaded = n_chunks then Success else Partial)\<rparr>"

definition async_upsert_to_pinecone ::
  "(string \<Rightarrow> string) \<Rightarrow> string option \<Rightarrow> (nat \<Rightarrow> bool) \<Rightarrow> 'v heap \<Rightarrow> addr list \<Rightarrow> int
     \<Rightarrow> 'v vector list list \<times> (py_error + upload_result)" where
  \<comment> \<open>\<open>api_key\<close> is \<open>os.getenv("PINECONE_API_KEY")\<close>; the result is the log of the upsert
      calls and the returned summary, or the exception that leaves the function\<close>
  "async_upsert_to_pinecone md5 api_key upsert_ok h chunks batch_size =
     (if api_key = None \<or> api_key = Some [] then
        ([], Inl (ValueError ''PINECONE_API_KEY not set''))
      else
        let st = foldl (upsert_step md5 upsert_ok batch_size h)
                   \<lparr>vectors_to_upsert = [], uploaded_count = 0, upsert_calls = []\<rparr> chunks
        in if vectors_to_upsert st \<noteq> [] then
             (if upsert_ok (length (upsert_calls st)) then
                (upsert_calls st @ [vectors_to_upsert st],
                 Inr (upload_summary (length chunks)
                        (uploaded_count st + length (vectors_to_upsert st))))
              else
                (upsert_calls st @ [vectors_to_upsert st], Inl (External ''upsert failed'')))
           else (upsert_calls st, Inr (upload_summary (length chunks) (uploaded_count st))))"

section \<open>stream_pdf_pages and stream_upload_file\<close>

text \<open>
  What \<open>PdfReader\<close> finds: a source that cannot be opened (with the message of the
  exception), or a sequence of pages, each of which either gives its text to
  \<open>extract_text()\<close> or makes it raise.  A generator is modelled by the list of the
  batches it yields, together with the exception that ends it, if any.
\<close>

datatype page = Text string | ExtractFails string

datatype pdf_source = Unreadable string | Pdf "page list"

fun stream_pages ::
  "string \<Rightarrow> int \<Rightarrow> nat \<Rightarrow> nat \<Rightarrow> string list \<Rightarrow> page list
     \<Rightarrow> string list list \<times> py_error option" where
  \<comment> \<open>the loop over \<open>enumerate(reader.pages)\<close> inside the \<open>try\<close>, from page \<open>idx\<close> on,
      with \<open>batch\<close> collected so far; \<open>header\<close> starts the message of the re-raised
      exception\<close>
  "stream_pages header batch_size total_pages idx batch [] = ([], None)"
| "stream_pages header batch_size total_pages idx batch (ExtractFails cause # ps) =
     ([], Some (Exception (header @ cause)))"
| "stream_pages header batch_size total_pages idx batch (Text text # ps) =
     (let batch' = batch @ [text] in
      if int (length batch') = batch_size \<or> int idx = int total_pages - 1 then
        (case stream_pages header batch_size total_pages (idx + 1) [] ps of
           (batches, r) \<Rightarrow> (batch' # batches, r))
      else stream_pages header batch_size total_pages (idx + 1) batch' ps)"

definition stream_source :: "string \<Rightarrow> pdf_source \<Rightarrow> int \<Rightarrow> string list list \<times> py_error option" where
  "stream_source header src batch_size =
     (case src of
        Unreadable cause \<Rightarrow> ([], Some (Exception (header @ cause)))
      | Pdf pages \<Rightarrow> stream_pages header batch_size (length pages) 0 [] pages)"

definition stream_pdf_pages :: "pdf_source \<Rightarrow> int \<Rightarrow> string list list \<times> py_error option" where
  "stream_pdf_pages file_path batch_size =
     stream_source ''Error streaming PDF: '' file_path batch_size"

definition stream_upload_file :: "pdf_source \<Rightarrow> int \<Rightarrow> string list list \<times> py_error option" where
  "stream_upload_file file_content batch_size =
     stream_source ''Error streaming upload: '' file_content batch_size"

section \<open>fast_process_large_document\<close>

text \<open>
  The services the pipeline reaches: the hash function, the embedding model, the
  environment variable \<open>PINECONE_API_KEY\<close>, the index, and the clock, of which only the
  total elapsed time enters a computation.  The per-step times and the size of the
  embedding cache are left out of the statistics; percentages and rates are kept as exact
  numbers instead of formatted strings.
\<close>

record 'v services =
  md5_hex :: "string \<Rightarrow> string"
  model_encode :: "string list \<Rightarrow> string + 'v list"
  pinecone_api_key :: "string option"
  index_upsert_ok :: "nat \<Rightarrow> bool"
  elapsed :: rat

datatype run_status = Processing | Completed | Error

record metrics =
  documents_processed :: nat
  total_pages :: nat
  total_chunks_created :: nat
  chunks_uploaded :: nat
  embedding_reduction :: rat
  time_per_page :: rat
  throughput :: rat

record stats =
  status :: run_status
  error :: "string option"
  parsing_pages :: "nat option"
  chunking_total_chunks :: "nat option"
  selection :: "(nat \<times> rat) option"  \<comment> \<open>\<open>selected_chunks\<close> and \<open>reduction\<close>\<close>
  embedding_chunks_embedded :: "nat option"
  upload :: "upload_result option"
  total_time :: "rat option"
  metrics :: "metrics option"

definition failed :: "stats \<Rightarrow> py_error \<Rightarrow> stats" where
  \<comment> \<open>the handler of lines 507-511\<close>
  "failed st e = st\<lparr>status := Error, error := Some (str_of_error e)\<rparr>"

definition parse_document ::
  "pdf_source option \<Rightarrow> pdf_source option \<Rightarrow> string list \<times> py_error option" where
  \<comment> \<open>lines 406-412: \<open>all_texts\<close> when the loop ends, and the exception that ended it;
      an argument is \<open>None\<close> when the Python argument is \<open>None\<close> or empty\<close>
  "parse_document file_path file_content =
     (case file_path of
        Some src \<Rightarrow> (case stream_pdf_pages src 5 of (batches, r) \<Rightarrow> (concat batches, r))
      | None \<Rightarrow>
          (case file_content of
             Some src \<Rightarrow> (case stream_upload_file src 5 of (batches, r) \<Rightarrow> (concat batches, r))
           | None \<Rightarrow> ([], None)))"

definition select_step :: "'v heap \<Rightarrow> addr list \<Rightarrow> string option \<Rightarrow> 'v heap \<times> addr list" where
  \<comment> \<open>lines 436-442\<close>
  "select_step h chunks query =
     (case query of
        None \<Rightarrow> (h, no_query_selection chunks)
      | Some q \<Rightarrow>
          if q = [] then (h, no_query_selection chunks)
          else select_most_relevant_chunks h chunks (split_ws (lower q)) 15)"

definition compute_metrics :: "nat \<Rightarrow> nat \<Rightarrow> nat \<Rightarrow> rat \<Rightarrow> py_error + metrics" where
  \<comment> \<open>lines 485-493; the three quotients are evaluated in this order\<close>
  "compute_metrics n_pages n_chunks n_embedded t_total =
     (case true_div (int n_chunks - int n_embedded) (int n_chunks) of
        Inl e \<Rightarrow> Inl e
      | Inr reduction \<Rightarrow>
          (case float_div t_total (of_nat n_pages) of
             Inl e \<Rightarrow> Inl e
           | Inr per_page \<Rightarrow>
               (case float_div (of_nat n_pages) t_total of
                  Inl e \<Rightarrow> Inl e
                | Inr rate \<Rightarrow>
                    Inr \<lparr>documents_processed = 1, total_pages = n_pages,
                         total_chunks_created = n_chunks, chunks_uploaded = n_embedded,
                         embedding_reduction = reduction * 100, time_per_page = per_page,
                         throughput = rate\<rparr>)))"

definition finish_stage :: "stats \<Rightarrow> nat \<Rightarrow> nat \<Rightarrow> nat \<Rightarrow> rat \<Rightarrow> upload_result \<Rightarrow> stats" where
  \<comment> \<open>lines 473-505\<close>
  "finish_stage stats4 n_pages n_chunks n_embedded t_total upload_result =
     (let stats5 = stats4\<lparr>upload := Some upload_result, total_time := Some t_total,
                          status := Completed\<rparr>
      in case compute_metrics n_pages n_chunks n_embedded t_total of
           Inl e \<Rightarrow> failed stats5 e
         | Inr m \<Rightarrow> stats5\<lparr>metrics := Some m\<rparr>)"

definition upload_stage ::
  "'v services \<Rightarrow> stats \<Rightarrow> nat \<Rightarrow> nat \<Rightarrow> 'v heap \<Rightarrow> addr list \<Rightarrow> stats" where
  \<comment> \<open>lines 458-471, then the rest\<close>
  "upload_stage sv stats3 n_pages n_chunks h embedded_chunks =
     (let stats4 = stats3\<lparr>embedding_chunks_embedded := Some (length embedded_chunks)\<rparr>
      in case snd (async_upsert_to_pinecone (md5_hex sv) (pinecone_api_key sv)
                     (index_upsert_ok sv) h embedded_chunks 100) of
           Inl e \<Rightarrow> failed stats4 e
         | Inr upload_result \<Rightarrow>
             finish_stage stats4 n_pages n_chunks (length embedded_chunks) (elapsed sv)
               upload_result)"

definition embed_stage ::
  "'v services \<Rightarrow> stats \<Rightarrow> nat \<Rightarrow> nat \<Rightarrow> 'v heap \<Rightarrow> addr list \<Rightarrow> stats" where
  \<comment> \<open>lines 444-456, then the rest; the embedder is a fresh one\<close>
  "embed_stage sv stats2 n_pages n_chunks h selected_chunks =
     (case true_div (int n_chunks - int (length selected_chunks)) (int n_chunks) of
        Inl e \<Rightarrow> failed stats2 e
      | Inr reduction \<Rightarrow>
          (let stats3 = stats2\<lparr>selection := Some (length selected_chunks, reduction * 100)\<rparr>;
               embedded = embed_chunks_parallel (md5_hex sv) (model_encode sv) FastEmbedder h
                            selected_chunks
           in case snd (snd embedded) of
                Inl e \<Rightarrow> failed stats3 e
              | Inr embedded_chunks \<Rightarrow>
                  upload_stage sv stats3 n_pages n_chunks (fst (snd embedded)) embedded_chunks))"

definition chunk_stage :: "'v services \<Rightarrow> stats \<Rightarrow> string list \<Rightarrow> string option \<Rightarrow> stats" where
  \<comment> \<open>lines 414-442, then the rest; the new dictionaries get the addresses
      \<open>0..<len(chunks)\<close>\<close>
  "chunk_stage sv stats0 all_texts query =
     (let stats1 = stats0\<lparr>parsing_pages := Some (length all_texts)\<rparr>;
          dicts = (intelligent_chunk_split all_texts 2000 :: 'v chunk list);
          chunks = [0..<length dicts];
          stats2 = stats1\<lparr>chunking_total_chunks := Some (length chunks)\<rparr>;
          selected = select_step (heap_of dicts) chunks query
      in embed_stage sv stats2 (length all_texts) (length chunks) (fst selected) (snd selected))"

definition fast_process_large_document ::
  "'v services \<Rightarrow> pdf_source option \<Rightarrow> pdf_source option \<Rightarrow> string option \<Rightarrow> stats" where
  "fast_process_large_document sv file_path file_content query =
     (let stats0 = \<lparr>status = Processing, error = None, parsing_pages = None,
                     chunking_total_chunks = None, selection = None,
                     embedding_chunks_embedded = None, upload = None, total_time = None,
                     metrics = None\<rparr>;
          parsed = parse_document file_path file_content
      in case snd parsed of
           Some e \<Rightarrow> failed stats0 e
         | None \<Rightarrow> chunk_stage sv stats0 (fst parsed) query)"


section \<open>Vocabulary of the properties\<close>

text \<open>
  The sections of a document are the non-blank pieces of its pages, in order; \<open>join_nn\<close>
  is \<open>'\n\n'.join\<close>; the ink of a text is what is left of it without whitespace.
\<close>

definition sections :: "string list \<Rightarrow> string list" where
  "sections texts = filter (\<lambda>s. strip s \<noteq> []) (concat (map split_nn texts))"

fun join_nn :: "string list \<Rightarrow> string" where
  "join_nn [] = []"
| "join_nn [s] = s"
| "join_nn (s # t # ts) = s @ [LF, LF] @ join_nn (t # ts)"

definition ink :: "string \<Rightarrow> string" where
  "ink s = filter (\<lambda>c. \<not> isspace c) s"

text \<open>
  The invariant of the chunking loop: the sections read so far are the sections of the
  chunks already closed, group by group, followed by the sections joined in the buffer.
\<close>

definition grouped :: "string list \<Rightarrow> 'v split_state \<Rightarrow> bool" where
  "grouped secs st = (case st of (chunks, cur, cid) \<Rightarrow>
     (\<exists>gs g. concat gs @ g = secs \<and> [] \<notin> set gs
        \<and> map chunk_text chunks = map (\<lambda>g. strip (join_nn g)) gs
        \<and> cur = join_nn g \<and> (\<forall>s\<in>set g. strip s \<noteq> [])))"

section \<open>Chunking keeps the content\<close>

lemma isspace_LF [simp]: "isspace LF"
  by (simp add: isspace_def LF_def)

lemma ink_Nil [simp]: "ink [] = []"
  by (simp add: ink_def)

lemma ink_append [simp]: "ink (a @ b) = ink a @ ink b"
  by (simp add: ink_def)

lemma ink_dropWhile: "ink (dropWhile isspace s) = ink s"
  by (induction s) (auto simp: ink_def)

lemma ink_rev: "ink (rev s) = rev (ink s)"
  by (simp add: ink_def rev_filter)

lemma ink_strip [simp]: "ink (strip s) = ink s"
  by (simp add: strip_def ink_rev ink_dropWhile)

lemma strip_Nil_iff: "strip s = [] \<longleftrightarrow> ink s = []"
proof
  assume "strip s = []"
  then have "ink (strip s) = []" by (simp add: ink_def)
  then show "ink s = []" by simp
next
  assume a: "ink s = []"
  then have "\<forall>c\<in>set s. isspace c"
    by (auto simp: ink_def filter_empty_conv)
  then have d: "dropWhile isspace s = []" by (induction s) auto
  show "strip s = []" unfolding strip_def d by simp
qed

lemma split_nn_not_Nil [simp]: "split_nn s \<noteq> []"
  by (induction s rule: split_nn.induct) (auto split: list.splits)

lemma ink_split_nn: "ink (concat (split_nn s)) = ink s"
proof (induction s rule: split_nn.induct)
  case 1 show ?case by simp
next
  case (2 c) show ?case by simp
next
  case (3 c d s)
  show ?case
  proof (cases "c = LF \<and> d = LF")
    case True
    with 3 show ?thesis by (simp add: ink_def)
  next
    case False
    with 3 show ?thesis by (auto split: list.splits simp: ink_def)
  qed
qed

lemma ink_join_nn: "ink (join_nn g) = ink (concat g)"
  by (induction g rule: join_nn.induct) (simp_all add: ink_def)

lemma ink_concat_filter:
  "ink (concat (filter (\<lambda>s. strip s \<noteq> []) xs)) = ink (concat xs)"
  by (induction xs) (auto simp: strip_Nil_iff)

lemma ink_concat_map_ink: "ink (concat (map f xs)) = concat (map (\<lambda>x. ink (f x)) xs)"
  by (induction xs) simp_all

lemma join_nn_snoc:
  "join_nn (g @ [s]) = (if g = [] then s else join_nn g @ [LF, LF] @ s)"
  by (induction g rule: join_nn.induct) simp_all

lemma strip_Nil [simp]: "strip [] = []"
  by (simp add: strip_def)

lemma join_nn_Nil_iff:
  "\<forall>s\<in>set g. strip s \<noteq> [] \<Longrightarrow> join_nn g = [] \<longleftrightarrow> g = []"
proof (cases g rule: join_nn.cases)
  case 1 then show ?thesis by simp
next
  case (2 s)
  assume "\<forall>s\<in>set g. strip s \<noteq> []"
  with 2 have "s \<noteq> []" by auto
  with 2 show ?thesis by simp
next
  case (3 s t ts) then show ?thesis by simp
qed

lemma groupedI:
  "concat gs @ g = secs \<Longrightarrow> [] \<notin> set gs \<Longrightarrow>
   map chunk_text chunks = map (\<lambda>g. strip (join_nn g)) gs \<Longrightarrow>
   cur = join_nn g \<Longrightarrow> (\<forall>s\<in>set g. strip s \<noteq> []) \<Longrightarrow>
   grouped secs (chunks, cur, cid)"
  unfolding grouped_def prod.case by blast

lemma grouped_add_section:
  assumes "grouped secs st"
  shows "grouped (secs @ filter (\<lambda>s. strip s \<noteq> []) [sec]) (add_section m st sec)"
proof -
  obtain chunks cur cid where st: "st = (chunks, cur, cid)" by (cases st)
  from assms obtain gs g where G1: "concat gs @ g = secs" and G2: "[] \<notin> set gs"
      and G3: "map chunk_text chunks = map (\<lambda>g. strip (join_nn g)) gs"
      and G4: "cur = join_nn g" and G5: "\<forall>s\<in>set g. strip s \<noteq> []"
    unfolding grouped_def st prod.case by blast
  show ?thesis
  proof (cases "strip sec = []")
    case True
    with assms show ?thesis by (simp add: add_section_def st)
  next
    case blank: False
    show ?thesis
    proof (cases "int (length cur) + int (length sec) > m \<and> cur \<noteq> []")
      case True
      have gne: "g \<noteq> []"
      proof
        assume "g = []"
        with G4 have "cur = []" by simp
        with True show False by simp
      qed
      have a: "concat (gs @ [g]) @ [sec] = secs @ [sec]" using G1 by simp
      have b: "[] \<notin> set (gs @ [g])" using G2 gne by auto
      have c: "map chunk_text (chunks @ [new_chunk cid cur])
                 = map (\<lambda>g. strip (join_nn g)) (gs @ [g])"
        using G3 by (simp add: new_chunk_def G4)
      have d: "sec = join_nn [sec]" by simp
      have e: "\<forall>s\<in>set [sec]. strip s \<noteq> []" using blank by simp
      have "grouped (secs @ [sec]) (chunks @ [new_chunk cid cur], sec, cid + 1)"
        by (rule groupedI [OF a b c d e])
      then show ?thesis using True blank
        by (simp add: add_section_def st)
    next
      case False
      have iff: "cur = [] \<longleftrightarrow> g = []"
        unfolding G4 by (rule join_nn_Nil_iff [OF G5])
      have a: "concat gs @ (g @ [sec]) = secs @ [sec]" using G1 by simp
      have d: "(if cur \<noteq> [] then cur @ [LF, LF] @ sec else sec) = join_nn (g @ [sec])"
        using iff by (simp add: join_nn_snoc G4)
      have e: "\<forall>s\<in>set (g @ [sec]). strip s \<noteq> []" using G5 blank by simp
      have "grouped (secs @ [sec])
          (chunks, (if cur \<noteq> [] then cur @ [LF, LF] @ sec else sec), cid)"
        by (rule groupedI [OF a G2 G3 d e])
      then show ?thesis using False blank
        by (auto simp: add_section_def st)
    qed
  qed
qed

lemma grouped_add_sections:
  "grouped secs st \<Longrightarrow>
   grouped (secs @ filter (\<lambda>s. strip s \<noteq> []) xs) (foldl (add_section m) st xs)"
proof (induction xs arbitrary: secs st)
  case Nil then show ?case by simp
next
  case (Cons x xs)
  from Cons.IH [OF grouped_add_section [OF Cons.prems, of x m]]
  show ?case by (cases "strip x = []") simp_all
qed

lemma grouped_add_pages:
  "grouped secs st \<Longrightarrow>
   grouped (secs @ sections texts) (foldl (add_page m) st texts)"
proof (induction texts arbitrary: secs st)
  case Nil then show ?case by (simp add: sections_def)
next
  case (Cons x xs)
  from Cons.IH [OF grouped_add_sections [OF Cons.prems, of "split_nn x" m]]
  show ?case by (simp add: sections_def add_page_def)
qed

lemma grouped_init: "grouped [] ([], [], 0)"
  unfolding grouped_def by simp

lemma chunk_groups:
  "\<exists>gs. concat gs = sections texts \<and> [] \<notin> set gs
     \<and> map chunk_text (intelligent_chunk_split texts m :: 'v chunk list)
         = map (\<lambda>g. strip (join_nn g)) gs"
proof -
  obtain chunks cur cid
    where st: "foldl (add_page m) ([] :: 'v chunk list, [], 0) texts = (chunks, cur, cid)"
    by (cases "foldl (add_page m) ([] :: 'v chunk list, [], 0) texts")
  have "grouped ([] @ sections texts) (foldl (add_page m) ([] :: 'v chunk list, [], 0) texts)"
    by (rule grouped_add_pages [OF grouped_init])
  then obtain gs g where G: "concat gs @ g = sections texts" "[] \<notin> set gs"
      "map chunk_text chunks = map (\<lambda>g. strip (join_nn g)) gs"
      "cur = join_nn g" "\<forall>s\<in>set g. strip s \<noteq> []"
    unfolding grouped_def st by auto
  show ?thesis
  proof (cases "strip cur = []")
    case True
    have "g = []"
    proof (rule ccontr)
      assume "g \<noteq> []"
      then obtain s where "s \<in> set g" by (cases g) auto
      with G(5) have "ink s \<noteq> []" by (simp add: strip_Nil_iff)
      with \<open>s \<in> set g\<close> have "ink (concat g) \<noteq> []"
        by (auto simp: ink_def filter_empty_conv)
      with True G(4) show False by (simp add: strip_Nil_iff ink_join_nn)
    qed
    with G True show ?thesis
      unfolding intelligent_chunk_split_def st by (intro exI [of _ gs]) simp
  next
    case False
    then have "g \<noteq> []" using G(4) by auto
    then have "concat (gs @ [g]) = sections texts \<and> [] \<notin> set (gs @ [g])
       \<and> map chunk_text (chunks @ [new_chunk cid cur]) = map (\<lambda>g. strip (join_nn g)) (gs @ [g])"
      using G by (simp add: new_chunk_def)
    then show ?thesis using False
      unfolding intelligent_chunk_split_def st by (intro exI [of _ "gs @ [g]"]) simp
  qed
qed

lemma concat_map_concat: "concat (map concat xs) = concat (concat xs)"
  by (induction xs) simp_all

text \<open>
  C2.  For every list of page texts and every budget, the chunk texts, concatenated in
  order, have the same non-whitespace characters in the same order as the pages.  More
  precisely the non-blank sections of the pages, in their order, are cut into consecutive
  non-empty groups, and each chunk text is one group joined by blank lines and stripped:
  every non-blank section is in exactly one chunk, and only whitespace at the boundaries of
  sections is added or removed.
\<close>

theorem chunks_preserve_content:
  "ink (concat (map chunk_text (intelligent_chunk_split texts m :: 'a chunk list))) = ink (concat texts)
   \<and> (\<exists>gs. concat gs = sections texts \<and> [] \<notin> set gs
        \<and> map chunk_text (intelligent_chunk_split texts m :: 'a chunk list) = map (\<lambda>g. strip (join_nn g)) gs)"
proof -
  from chunk_groups [of texts m, where ?'v = 'a] obtain gs where G: "concat gs = sections texts" "[] \<notin> set gs"
      "map chunk_text (intelligent_chunk_split texts m :: 'a chunk list) = map (\<lambda>g. strip (join_nn g)) gs"
    by blast
  have "ink (concat (map chunk_text (intelligent_chunk_split texts m :: 'a chunk list)))
      = ink (concat (map (\<lambda>g. strip (join_nn g)) gs))" by (simp only: G(3))
  also have "\<dots> = concat (map (\<lambda>g. ink (concat g)) gs)"
    by (simp add: ink_concat_map_ink ink_join_nn)
  also have "\<dots> = ink (concat (concat gs))"
    by (simp add: ink_concat_map_ink [of "\<lambda>g. concat g", symmetric] concat_map_concat)
  also have "\<dots> = ink (concat (concat (map split_nn texts)))"
    by (simp add: G(1) sections_def ink_concat_filter)
  also have "\<dots> = ink (concat texts)"
    by (induction texts) (simp_all add: ink_split_nn)
  finally show ?thesis using G by blast
qed

end
